theory Spec2Isabelle
  imports Complex_Main "HOL-Library.Multiset"
begin

section \<open>Q and A over documents: the notebook \<open>L4-Question_Answer.ipynb\<close>\<close>

text \<open>
  The notebook is a sequence of code cells, each a few calls into external libraries
  (dotenv, pandas, langchain, IPython). The libraries are not part of the notebook: they
  are a parameter of the model, a record with one field per library entry point the
  notebook calls. Every entry point may raise, so each returns \<open>'e + 'a\<close> with \<open>Inl\<close>
  the exception. What the notebook itself computes (indexing \<open>docs[0]\<close>, \<open>len\<close>, the
  slice \<open>embed[:5]\<close>, the join of the retrieved documents, the f-string of the prompt)
  is written out.

  The cells are run once from top to bottom, and a raised exception ends the run.
\<close>

subsection \<open>Values\<close>

text \<open>A langchain \<open>Document\<close>: the text and the metadata dictionary.\<close>

record Document =
  page_content :: string
  metadata :: "(string \<times> string) list"

text \<open>
  An exception is either one raised inside a library call (\<open>'e\<close> is the library's own
  exception type) or Python's \<open>IndexError\<close> from \<open>docs[0]\<close> on an empty list.
\<close>

datatype 'e error = LibraryError 'e | IndexError

datatype vectorstore_cls = DocArrayInMemorySearch

text \<open>
  The library: \<open>'o\<close> is the type of the objects the library hands out (loader, data
  frame, embedding client, vector store, retriever, chat model, chain, index wrapper),
  \<open>'x\<close> the type of one component of an embedding vector.
\<close>

record ('o, 'x, 'e) library =
  find_dotenv :: "'e + string"
  load_dotenv :: "string \<Rightarrow> 'e + bool"
  CSVLoader :: "string \<Rightarrow> 'e + 'o"
  CSVLoader_load :: "'o \<Rightarrow> 'e + Document list"
  read_csv :: "string \<Rightarrow> nat \<Rightarrow> 'e + 'o"
  DataFrame_head :: "'o \<Rightarrow> 'e + 'o"
  VectorstoreIndexCreator :: "vectorstore_cls \<Rightarrow> 'o option \<Rightarrow> 'e + 'o"
  from_loaders :: "'o \<Rightarrow> 'o list \<Rightarrow> 'e + 'o"
  index_query :: "'o \<Rightarrow> string \<Rightarrow> 'o option \<Rightarrow> 'e + string"
  OpenAIEmbeddings :: "'e + 'o"
  embed_query :: "'o \<Rightarrow> string \<Rightarrow> 'e + 'x list"
  from_documents :: "Document list \<Rightarrow> 'o \<Rightarrow> 'e + 'o"
  similarity_search :: "'o \<Rightarrow> string \<Rightarrow> 'e + Document list"
  as_retriever :: "'o \<Rightarrow> 'e + 'o"
  ChatOpenAI :: "real \<Rightarrow> 'e + 'o"
  call_as_llm :: "'o \<Rightarrow> string \<Rightarrow> 'e + string"
  from_chain_type :: "'o \<Rightarrow> string \<Rightarrow> 'o \<Rightarrow> bool \<Rightarrow> 'e + 'o"
  RetrievalQA_run :: "'o \<Rightarrow> string \<Rightarrow> 'e + string"

subsection \<open>The log of a run\<close>

text \<open>
  What a cell shows: the value of its last expression, \<open>display(Markdown(...))\<close>, or
  \<open>print(...)\<close>.
\<close>

datatype ('o, 'x) shown =
    Cell_value_obj 'o
  | Cell_value_doc Document
  | Display_Markdown string
  | Print_len nat
  | Print_floats "'x list"
  | Print_doc Document
  | Print_str string

text \<open>
  One event per operation of a run, in the order they happen: a library call with its
  arguments, or an output. The log is ghost state: the notebook never reads it.
\<close>

datatype ('o, 'x) event =
    Call_find_dotenv
  | Call_load_dotenv string
  | Call_CSVLoader string
  | Call_CSVLoader_load 'o
  | Call_read_csv string nat
  | Call_DataFrame_head 'o
  | Call_VectorstoreIndexCreator vectorstore_cls "'o option"
  | Call_from_loaders 'o "'o list"
  | Call_index_query 'o string "'o option"
  | Call_OpenAIEmbeddings
  | Call_embed_query 'o string
  | Call_from_documents "Document list" 'o
  | Call_similarity_search 'o string
  | Call_as_retriever 'o
  | Call_ChatOpenAI real
  | Call_call_as_llm 'o string
  | Call_from_chain_type 'o string 'o bool
  | Call_RetrievalQA_run 'o string
  | Output "('o, 'x) shown"

text \<open>
  A computation takes the log so far and returns the extended log with either the
  exception that ended it or its value.
\<close>

type_synonym ('o, 'x, 'e, 'a) nb =
  "('o, 'x) event list \<Rightarrow> ('o, 'x) event list \<times> ('e error + 'a)"

definition nb_return :: "'a \<Rightarrow> ('o, 'x, 'e, 'a) nb" where
  "nb_return a = (\<lambda>l. (l, Inr a))"

definition nb_raise :: "'e error \<Rightarrow> ('o, 'x, 'e, 'a) nb" where
  "nb_raise e = (\<lambda>l. (l, Inl e))"

text \<open>Sequencing: an exception of the first part skips the rest.\<close>

definition nb_bind ::
  "('o, 'x, 'e, 'a) nb \<Rightarrow> ('a \<Rightarrow> ('o, 'x, 'e, 'b) nb) \<Rightarrow> ('o, 'x, 'e, 'b) nb" where
  "nb_bind m f = (\<lambda>l. case m l of (l', Inl e) \<Rightarrow> (l', Inl e) | (l', Inr a) \<Rightarrow> f a l')"

text \<open>A library call: logged, and its exception, if any, is the computation's.\<close>

definition call :: "('o, 'x) event \<Rightarrow> 'e + 'a \<Rightarrow> ('o, 'x, 'e, 'a) nb" where
  "call ev r = (\<lambda>l. (l @ [ev], case r of Inl e \<Rightarrow> Inl (LibraryError e) | Inr a \<Rightarrow> Inr a))"

definition out :: "('o, 'x) shown \<Rightarrow> ('o, 'x, 'e, unit) nb" where
  "out v = (\<lambda>l. (l @ [Output v], Inr ()))"

text \<open>\<open>xs[0]\<close>: raises \<open>IndexError\<close> on the empty list.\<close>

definition index0 :: "'a list \<Rightarrow> ('o, 'x, 'e, 'a) nb" where
  "index0 xs = (case xs of [] \<Rightarrow> nb_raise IndexError | x # _ \<Rightarrow> nb_return x)"

subsection \<open>What the notebook computes itself\<close>

text \<open>\<open>sep.join(xs)\<close> of Python.\<close>

fun join :: "string \<Rightarrow> string list \<Rightarrow> string" where
  "join sep [] = []"
| "join sep [x] = x"
| "join sep (x # y # ys) = x @ sep @ join sep (y # ys)"

text \<open>\<open>"".join([docs[i].page_content for i in range(len(docs))])\<close>\<close>

definition qdocs_of :: "Document list \<Rightarrow> string" where
  "qdocs_of docs = join [] (map (\<lambda>i. page_content (docs ! i)) [0..<length docs])"

text \<open>
  The f-string of the call to \<open>call_as_llm\<close>; the backslash at the end of the source
  line continues the literal without adding a character.
\<close>

definition prompt_of :: "string \<Rightarrow> string" where
  "prompt_of qdocs = qdocs @
     '' Question: Please list all your shirts with sun protection in a table in markdown and summarize each one.''"

text \<open>The variable \<open>file\<close>.\<close>

definition file_name :: string where
  "file_name = ''OutdoorClothingCatalog_1000.csv''"

text \<open>The value of \<open>query\<close> in the first cell that sets it and again before \<open>qa_stuff.run\<close>.\<close>

definition query_list :: string where
  "query_list = ''Please list all your shirts with sun protection in a table in markdown and summarize each one.''"

text \<open>The value of \<open>query\<close> for \<open>similarity_search\<close>.\<close>

definition query_suggest :: string where
  "query_suggest = ''Please suggest a shirt with sunblocking''"

subsection \<open>The cells\<close>

text \<open>\<open>_ = load_dotenv(find_dotenv())\<close>\<close>

definition cell_dotenv :: "('o, 'x, 'e) library \<Rightarrow> ('o, 'x, 'e, unit) nb" where
  "cell_dotenv lib =
     nb_bind (call Call_find_dotenv (find_dotenv lib)) (\<lambda>p.
     nb_bind (call (Call_load_dotenv p) (load_dotenv lib p)) (\<lambda>_.
     nb_return ()))"

text \<open>
  \<open>loader = CSVLoader(file_path=file); df = pd.read_csv(file, index_col=0); df.head()\<close>.
  Returns \<open>loader\<close>.
\<close>

definition cell_catalog :: "('o, 'x, 'e) library \<Rightarrow> ('o, 'x, 'e, 'o) nb" where
  "cell_catalog lib =
     nb_bind (call (Call_CSVLoader file_name) (CSVLoader lib file_name)) (\<lambda>loader.
     nb_bind (call (Call_read_csv file_name 0) (read_csv lib file_name 0)) (\<lambda>df.
     nb_bind (call (Call_DataFrame_head df) (DataFrame_head lib df)) (\<lambda>h.
     nb_bind (out (Cell_value_obj h)) (\<lambda>_.
     nb_return loader))))"

text \<open>
  \<open>index = VectorstoreIndexCreator(vectorstore_cls=DocArrayInMemorySearch).from_loaders([loader])\<close>,
  \<open>response = index.query(query)\<close>, \<open>display(Markdown(response))\<close>.
\<close>

definition cell_one_shot :: "('o, 'x, 'e) library \<Rightarrow> 'o \<Rightarrow> ('o, 'x, 'e, unit) nb" where
  "cell_one_shot lib loader =
     nb_bind (call (Call_VectorstoreIndexCreator DocArrayInMemorySearch None)
                (VectorstoreIndexCreator lib DocArrayInMemorySearch None)) (\<lambda>creator.
     nb_bind (call (Call_from_loaders creator [loader]) (from_loaders lib creator [loader])) (\<lambda>index.
     nb_bind (call (Call_index_query index query_list None) (index_query lib index query_list None)) (\<lambda>response.
     nb_bind (out (Display_Markdown response)) (\<lambda>_.
     nb_return ()))))"

text \<open>
  \<open>loader = CSVLoader(file_path=file); docs = loader.load(); docs[0]\<close>.
  Returns \<open>(loader, docs)\<close>.
\<close>

definition cell_load :: "('o, 'x, 'e) library \<Rightarrow> ('o, 'x, 'e, 'o \<times> Document list) nb" where
  "cell_load lib =
     nb_bind (call (Call_CSVLoader file_name) (CSVLoader lib file_name)) (\<lambda>loader.
     nb_bind (call (Call_CSVLoader_load loader) (CSVLoader_load lib loader)) (\<lambda>docs.
     nb_bind (index0 docs) (\<lambda>d.
     nb_bind (out (Cell_value_doc d)) (\<lambda>_.
     nb_return (loader, docs)))))"

text \<open>
  \<open>embeddings = OpenAIEmbeddings(); embed = embeddings.embed_query("Hi my name is Harrison");
  print(len(embed)); print(embed[:5])\<close>. Returns \<open>embeddings\<close>.
\<close>

definition cell_embeddings :: "('o, 'x, 'e) library \<Rightarrow> ('o, 'x, 'e, 'o) nb" where
  "cell_embeddings lib =
     nb_bind (call Call_OpenAIEmbeddings (OpenAIEmbeddings lib)) (\<lambda>embeddings.
     nb_bind (call (Call_embed_query embeddings ''Hi my name is Harrison'')
                (embed_query lib embeddings ''Hi my name is Harrison'')) (\<lambda>embed.
     nb_bind (out (Print_len (length embed))) (\<lambda>_.
     nb_bind (out (Print_floats (take 5 embed))) (\<lambda>_.
     nb_return embeddings))))"

text \<open>\<open>db = DocArrayInMemorySearch.from_documents(docs, embeddings)\<close>\<close>

definition cell_db ::
  "('o, 'x, 'e) library \<Rightarrow> Document list \<Rightarrow> 'o \<Rightarrow> ('o, 'x, 'e, 'o) nb" where
  "cell_db lib docs embeddings =
     call (Call_from_documents docs embeddings) (from_documents lib docs embeddings)"

text \<open>
  \<open>query = "Please suggest a shirt with sunblocking"; docs = db.similarity_search(query);
  print(len(docs)); print(docs[0])\<close>. Returns the new \<open>docs\<close>.
\<close>

definition cell_search :: "('o, 'x, 'e) library \<Rightarrow> 'o \<Rightarrow> ('o, 'x, 'e, Document list) nb" where
  "cell_search lib db =
     nb_bind (call (Call_similarity_search db query_suggest)
                (similarity_search lib db query_suggest)) (\<lambda>docs.
     nb_bind (out (Print_len (length docs))) (\<lambda>_.
     nb_bind (index0 docs) (\<lambda>d.
     nb_bind (out (Print_doc d)) (\<lambda>_.
     nb_return docs))))"

text \<open>
  \<open>retriever = db.as_retriever(); llm = ChatOpenAI(temperature = 0.0);
  qdocs = "".join(...); print(qdocs)\<close>. Returns \<open>(retriever, llm, qdocs)\<close>.
\<close>

definition cell_qdocs ::
  "('o, 'x, 'e) library \<Rightarrow> 'o \<Rightarrow> Document list \<Rightarrow> ('o, 'x, 'e, 'o \<times> 'o \<times> string) nb" where
  "cell_qdocs lib db docs =
     nb_bind (call (Call_as_retriever db) (as_retriever lib db)) (\<lambda>retriever.
     nb_bind (call (Call_ChatOpenAI 0) (ChatOpenAI lib 0)) (\<lambda>llm.
     nb_bind (out (Print_str (qdocs_of docs))) (\<lambda>_.
     nb_return (retriever, llm, qdocs_of docs))))"

text \<open>
  \<open>response = llm.call_as_llm(f"{qdocs} Question: ..."); display(Markdown(response))\<close>.
  Returns \<open>response\<close>.
\<close>

definition cell_call_llm :: "('o, 'x, 'e) library \<Rightarrow> 'o \<Rightarrow> string \<Rightarrow> ('o, 'x, 'e, string) nb" where
  "cell_call_llm lib llm qdocs =
     nb_bind (call (Call_call_as_llm llm (prompt_of qdocs))
                (call_as_llm lib llm (prompt_of qdocs))) (\<lambda>response.
     nb_bind (out (Display_Markdown response)) (\<lambda>_.
     nb_return response))"

text \<open>
  \<open>qa_stuff = RetrievalQA.from_chain_type(llm=llm, chain_type="stuff", retriever=retriever,
  verbose=True); response = qa_stuff.run(query)\<close>, and in the next cell
  \<open>display(Markdown(response))\<close>. Returns \<open>response\<close>.
\<close>

definition cell_qa_stuff :: "('o, 'x, 'e) library \<Rightarrow> 'o \<Rightarrow> 'o \<Rightarrow> ('o, 'x, 'e, string) nb" where
  "cell_qa_stuff lib llm retriever =
     nb_bind (call (Call_from_chain_type llm ''stuff'' retriever True)
                (from_chain_type lib llm ''stuff'' retriever True)) (\<lambda>qa_stuff.
     nb_bind (call (Call_RetrievalQA_run qa_stuff query_list)
                (RetrievalQA_run lib qa_stuff query_list)) (\<lambda>response.
     nb_bind (out (Display_Markdown response)) (\<lambda>_.
     nb_return response)))"

text \<open>
  \<open>index = VectorstoreIndexCreator(vectorstore_cls=DocArrayInMemorySearch,
  embedding=embeddings).from_loaders([loader]); response = index.query(query, llm=llm)\<close>.
  Returns \<open>response\<close>.
\<close>

definition cell_same ::
  "('o, 'x, 'e) library \<Rightarrow> 'o \<Rightarrow> 'o \<Rightarrow> 'o \<Rightarrow> ('o, 'x, 'e, string) nb" where
  "cell_same lib loader embeddings llm =
     nb_bind (call (Call_VectorstoreIndexCreator DocArrayInMemorySearch (Some embeddings))
                (VectorstoreIndexCreator lib DocArrayInMemorySearch (Some embeddings))) (\<lambda>creator.
     nb_bind (call (Call_from_loaders creator [loader]) (from_loaders lib creator [loader])) (\<lambda>index.
     call (Call_index_query index query_list (Some llm))
       (index_query lib index query_list (Some llm))))"

subsection \<open>The runs\<close>

text \<open>
  The cells under "Understand Step-by-Step", from \<open>loader.load()\<close> to the displayed
  answer of \<open>call_as_llm\<close>. Returns the variables later cells read.
\<close>

definition step_by_step ::
  "('o, 'x, 'e) library \<Rightarrow> ('o, 'x, 'e, 'o \<times> 'o \<times> 'o \<times> 'o \<times> string) nb" where
  "step_by_step lib =
     nb_bind (cell_load lib) (\<lambda>(loader, docs).
     nb_bind (cell_embeddings lib) (\<lambda>embeddings.
     nb_bind (cell_db lib docs embeddings) (\<lambda>db.
     nb_bind (cell_search lib db) (\<lambda>docs.
     nb_bind (cell_qdocs lib db docs) (\<lambda>(retriever, llm, qdocs).
     nb_bind (cell_call_llm lib llm qdocs) (\<lambda>response.
     nb_return (loader, embeddings, retriever, llm, response)))))))"

text \<open>The whole notebook.\<close>

definition notebook :: "('o, 'x, 'e) library \<Rightarrow> ('o, 'x, 'e, string) nb" where
  "notebook lib =
     nb_bind (cell_dotenv lib) (\<lambda>_.
     nb_bind (cell_catalog lib) (\<lambda>loader.
     nb_bind (cell_one_shot lib loader) (\<lambda>_.
     nb_bind (step_by_step lib) (\<lambda>(loader, embeddings, retriever, llm, response).
     nb_bind (cell_qa_stuff lib llm retriever) (\<lambda>response.
     cell_same lib loader embeddings llm)))))"

subsection \<open>Operations, and the exception a call raised\<close>

text \<open>An event without its arguments: which operation of the notebook it is.\<close>

datatype operation =
    Op_find_dotenv | Op_load_dotenv | Op_CSVLoader | Op_CSVLoader_load | Op_read_csv
  | Op_DataFrame_head | Op_VectorstoreIndexCreator | Op_from_loaders | Op_index_query
  | Op_OpenAIEmbeddings | Op_embed_query | Op_from_documents | Op_similarity_search
  | Op_as_retriever | Op_ChatOpenAI | Op_call_as_llm | Op_from_chain_type
  | Op_RetrievalQA_run | Op_cell_value | Op_display | Op_print

fun op_of :: "('o, 'x) event \<Rightarrow> operation" where
  "op_of Call_find_dotenv = Op_find_dotenv"
| "op_of (Call_load_dotenv _) = Op_load_dotenv"
| "op_of (Call_CSVLoader _) = Op_CSVLoader"
| "op_of (Call_CSVLoader_load _) = Op_CSVLoader_load"
| "op_of (Call_read_csv _ _) = Op_read_csv"
| "op_of (Call_DataFrame_head _) = Op_DataFrame_head"
| "op_of (Call_VectorstoreIndexCreator _ _) = Op_VectorstoreIndexCreator"
| "op_of (Call_from_loaders _ _) = Op_from_loaders"
| "op_of (Call_index_query _ _ _) = Op_index_query"
| "op_of Call_OpenAIEmbeddings = Op_OpenAIEmbeddings"
| "op_of (Call_embed_query _ _) = Op_embed_query"
| "op_of (Call_from_documents _ _) = Op_from_documents"
| "op_of (Call_similarity_search _ _) = Op_similarity_search"
| "op_of (Call_as_retriever _) = Op_as_retriever"
| "op_of (Call_ChatOpenAI _) = Op_ChatOpenAI"
| "op_of (Call_call_as_llm _ _) = Op_call_as_llm"
| "op_of (Call_from_chain_type _ _ _ _) = Op_from_chain_type"
| "op_of (Call_RetrievalQA_run _ _) = Op_RetrievalQA_run"
| "op_of (Output (Cell_value_obj _)) = Op_cell_value"
| "op_of (Output (Cell_value_doc _)) = Op_cell_value"
| "op_of (Output (Display_Markdown _)) = Op_display"
| "op_of (Output (Print_len _)) = Op_print"
| "op_of (Output (Print_floats _)) = Op_print"
| "op_of (Output (Print_doc _)) = Op_print"
| "op_of (Output (Print_str _)) = Op_print"

text \<open>
  The operations of the code cells as the notebook's text has them, first cell first,
  each occurrence in the text once.
\<close>

definition textual_order :: "operation list" where
  "textual_order =
     [Op_find_dotenv, Op_load_dotenv,
      Op_CSVLoader, Op_read_csv, Op_DataFrame_head, Op_cell_value,
      Op_VectorstoreIndexCreator, Op_from_loaders, Op_index_query, Op_display,
      Op_CSVLoader, Op_CSVLoader_load, Op_cell_value,
      Op_OpenAIEmbeddings, Op_embed_query, Op_print, Op_print,
      Op_from_documents,
      Op_similarity_search, Op_print, Op_print,
      Op_as_retriever, Op_ChatOpenAI, Op_print,
      Op_call_as_llm, Op_display,
      Op_from_chain_type, Op_RetrievalQA_run, Op_display,
      Op_VectorstoreIndexCreator, Op_from_loaders, Op_index_query]"

definition failure :: "'e + 'a \<Rightarrow> 'e option" where
  "failure r = (case r of Inl e \<Rightarrow> Some e | Inr _ \<Rightarrow> None)"

text \<open>The exception the library raised in the call an event records, if it raised one.\<close>

fun raised :: "('o, 'x, 'e) library \<Rightarrow> ('o, 'x) event \<Rightarrow> 'e option" where
  "raised lib Call_find_dotenv = failure (find_dotenv lib)"
| "raised lib (Call_load_dotenv p) = failure (load_dotenv lib p)"
| "raised lib (Call_CSVLoader p) = failure (CSVLoader lib p)"
| "raised lib (Call_CSVLoader_load loader) = failure (CSVLoader_load lib loader)"
| "raised lib (Call_read_csv p i) = failure (read_csv lib p i)"
| "raised lib (Call_DataFrame_head df) = failure (DataFrame_head lib df)"
| "raised lib (Call_VectorstoreIndexCreator c e) = failure (VectorstoreIndexCreator lib c e)"
| "raised lib (Call_from_loaders c ls) = failure (from_loaders lib c ls)"
| "raised lib (Call_index_query i q m) = failure (index_query lib i q m)"
| "raised lib Call_OpenAIEmbeddings = failure (OpenAIEmbeddings lib)"
| "raised lib (Call_embed_query e t) = failure (embed_query lib e t)"
| "raised lib (Call_from_documents ds e) = failure (from_documents lib ds e)"
| "raised lib (Call_similarity_search db q) = failure (similarity_search lib db q)"
| "raised lib (Call_as_retriever db) = failure (as_retriever lib db)"
| "raised lib (Call_ChatOpenAI t) = failure (ChatOpenAI lib t)"
| "raised lib (Call_call_as_llm m p) = failure (call_as_llm lib m p)"
| "raised lib (Call_from_chain_type m c r v) = failure (from_chain_type lib m c r v)"
| "raised lib (Call_RetrievalQA_run c q) = failure (RetrievalQA_run lib c q)"
| "raised lib (Output _) = None"






subsection \<open>The notebook as one sequence\<close>


section \<open>The library as the specification describes it\<close>

text \<open>
  Modelled from the spec: langchain's \<open>CSVLoader.load\<close> is not in the repository. The
  specification says "load rows from a CSV", the notebook "each index/doc is a row in the
  csv". A CSV file is the list of its rows, each row a text; the loader gives one document
  per row, in the file's order, with the row's text as page content. Neither says what
  the metadata holds; it is left empty.
\<close>

definition csv_documents :: "string list \<Rightarrow> Document list" where
  "csv_documents rows = map (\<lambda>r. \<lparr>page_content = r, metadata = []\<rparr>) rows"

text \<open>
  Modelled from the spec: \<open>DocArrayInMemorySearch.from_documents\<close> is not in the
  repository. The specification says "embed them, build an in-memory similarity index" and
  "it performs no custom indexing algorithm". The store is the list of the documents,
  each beside the vector the embedding function returns for its page content.
\<close>

definition store_from_documents ::
  "(string \<Rightarrow> 'v) \<Rightarrow> Document list \<Rightarrow> ('v \<times> Document) list" where
  "store_from_documents emb docs = map (\<lambda>d. (emb (page_content d), d)) docs"

text \<open>
  Modelled from the spec: \<open>DocArrayInMemorySearch.similarity_search\<close> is not in the
  repository. The specification says "a generic in-memory brute-force nearest-neighbor
  search" and "retrieve the top-k rows matching a query". Every entry of the store is
  scored against the query's vector, the entries are sorted by score, highest first, and
  the first \<open>k\<close> are returned. The similarity measure \<open>sim\<close> is a parameter.
\<close>

definition nearest ::
  "('v \<Rightarrow> 'v \<Rightarrow> 's::linorder) \<Rightarrow> 'v \<Rightarrow> ('v \<times> Document) list \<Rightarrow> nat \<Rightarrow> ('v \<times> Document) list" where
  "nearest sim qv store k = take k (rev (sort_key (\<lambda>entry. sim qv (fst entry)) store))"

text \<open>
  Modelled from the spec: \<open>similarity_search\<close> returns documents, not store entries;
  the query is embedded with the same embedding function as the documents were ("embed
  them ... retrieve the top-k rows matching a query").
\<close>

definition store_similarity_search ::
  "(string \<Rightarrow> 'v) \<Rightarrow> ('v \<Rightarrow> 'v \<Rightarrow> 's::linorder) \<Rightarrow> ('v \<times> Document) list \<Rightarrow> string \<Rightarrow> nat
     \<Rightarrow> Document list" where
  "store_similarity_search emb sim store q k = map snd (nearest sim (emb q) store k)"

text \<open>
  Modelled from the spec: the default of \<open>k\<close> in \<open>similarity_search\<close> is not in the
  repository. The specification says "top-k"; the notebook, at its call without \<open>k\<close>,
  "it returns 4 similar docs based on query".
\<close>

definition default_k :: nat where
  "default_k = 4"

subsection \<open>A library to run the notebook on\<close>

text \<open>
  Modelled from the spec: a whole library, to run the notebook on, put together from the
  loader, the store and the search above. None of it is in the repository. Its objects
  are typed; an entry point given an object of the wrong kind raises \<open>TypeError\<close>, and
  loading a path with no file raises \<open>FileNotFoundError\<close>.

  The services behind the library: the rows of the CSV file at a path (\<open>None\<close> where
  there is no file), the embedding endpoint, the similarity measure and the completion
  endpoint.
\<close>

record ('x, 's) services =
  csv_rows :: "string \<Rightarrow> string list option"
  embedding :: "string \<Rightarrow> 'x list"
  similarity :: "'x list \<Rightarrow> 'x list \<Rightarrow> 's"
  completion :: "string \<Rightarrow> string"

datatype 'x obj =
    Loader string
  | Frame "string list"
  | Embeddings
  | Store "('x list \<times> Document) list"
  | Retriever "('x list \<times> Document) list"
  | Chat
  | Chain
  | Creator
  | Index

datatype lib_error = FileNotFoundError | TypeError

definition catalog_load :: "('x, 's) services \<Rightarrow> 'x obj \<Rightarrow> lib_error + Document list" where
  "catalog_load w loader =
     (case loader of
        Loader p \<Rightarrow>
          (case csv_rows w p of
             None \<Rightarrow> Inl FileNotFoundError
           | Some rows \<Rightarrow> Inr (csv_documents rows))
      | _ \<Rightarrow> Inl TypeError)"

definition catalog_read_csv :: "('x, 's) services \<Rightarrow> string \<Rightarrow> nat \<Rightarrow> lib_error + 'x obj" where
  "catalog_read_csv w p i =
     (case csv_rows w p of None \<Rightarrow> Inl FileNotFoundError | Some rows \<Rightarrow> Inr (Frame rows))"

definition catalog_head :: "'x obj \<Rightarrow> lib_error + 'x obj" where
  "catalog_head df = (case df of Frame rows \<Rightarrow> Inr (Frame (take 5 rows)) | _ \<Rightarrow> Inl TypeError)"

definition catalog_embed_query ::
  "('x, 's) services \<Rightarrow> 'x obj \<Rightarrow> string \<Rightarrow> lib_error + 'x list" where
  "catalog_embed_query w e t = (case e of Embeddings \<Rightarrow> Inr (embedding w t) | _ \<Rightarrow> Inl TypeError)"

definition catalog_from_documents ::
  "('x, 's) services \<Rightarrow> Document list \<Rightarrow> 'x obj \<Rightarrow> lib_error + 'x obj" where
  "catalog_from_documents w docs e =
     (case e of
        Embeddings \<Rightarrow> Inr (Store (store_from_documents (embedding w) docs))
      | _ \<Rightarrow> Inl TypeError)"

definition catalog_similarity_search ::
  "('x, 's::linorder) services \<Rightarrow> 'x obj \<Rightarrow> string \<Rightarrow> lib_error + Document list" where
  "catalog_similarity_search w db q =
     (case db of
        Store st \<Rightarrow> Inr (store_similarity_search (embedding w) (similarity w) st q default_k)
      | _ \<Rightarrow> Inl TypeError)"

definition catalog_as_retriever :: "'x obj \<Rightarrow> lib_error + 'x obj" where
  "catalog_as_retriever db = (case db of Store st \<Rightarrow> Inr (Retriever st) | _ \<Rightarrow> Inl TypeError)"

definition catalog_call_as_llm ::
  "('x, 's) services \<Rightarrow> 'x obj \<Rightarrow> string \<Rightarrow> lib_error + string" where
  "catalog_call_as_llm w m p = (case m of Chat \<Rightarrow> Inr (completion w p) | _ \<Rightarrow> Inl TypeError)"

text \<open>
  Modelled from the spec: the loader, the embedding client, the store and the chat model
  are the definitions above. The specification does not say what the index creator, the
  index wrapper and the retrieval chain do inside; here they have only the behaviour a
  run needs, they hand the question to the completion endpoint, and no property below
  is about them.
\<close>

definition catalog_library ::
  "('x, 's::linorder) services \<Rightarrow> ('x obj, 'x, lib_error) library" where
  "catalog_library w =
     \<lparr>find_dotenv = Inr ''.env'',
      load_dotenv = (\<lambda>p. Inr True),
      CSVLoader = (\<lambda>p. Inr (Loader p)),
      CSVLoader_load = catalog_load w,
      read_csv = catalog_read_csv w,
      DataFrame_head = catalog_head,
      VectorstoreIndexCreator = (\<lambda>c e. Inr Creator),
      from_loaders = (\<lambda>c ls. Inr Index),
      index_query = (\<lambda>i q m. Inr (completion w q)),
      OpenAIEmbeddings = Inr Embeddings,
      embed_query = catalog_embed_query w,
      from_documents = catalog_from_documents w,
      similarity_search = catalog_similarity_search w,
      as_retriever = catalog_as_retriever,
      ChatOpenAI = (\<lambda>t. Inr Chat),
      call_as_llm = catalog_call_as_llm w,
      from_chain_type = (\<lambda>m c r v. Inr Chain),
      RetrievalQA_run = (\<lambda>c q. Inr (completion w q))\<rparr>"

text \<open>
  A small catalog of five rows. The embedding of a text is its length and the number of
  its letters s; the similarity of two vectors is higher the closer their first components.
\<close>

definition small_rows :: "string list" where
  "small_rows = [''sun shirt'', ''boots'', ''sun hat'', ''rain jacket'', ''tent'']"

definition small_embedding :: "string \<Rightarrow> int list" where
  "small_embedding t = [int (length t), int (length (filter (\<lambda>c. c = CHR ''s'') t))]"

definition small_similarity :: "int list \<Rightarrow> int list \<Rightarrow> int" where
  "small_similarity u v = - \<bar>hd u - hd v\<bar>"

definition small_services :: "(string \<Rightarrow> string) \<Rightarrow> (int, int) services" where
  "small_services answer =
     \<lparr>csv_rows = (\<lambda>p. if p = file_name then Some small_rows else None),
      embedding = small_embedding,
      similarity = small_similarity,
      completion = answer\<rparr>"

definition small_library :: "(int obj, int, lib_error) library" where
  "small_library = catalog_library (small_services (\<lambda>p. ''ok''))"

definition small_docs :: "Document list" where
  "small_docs = csv_documents small_rows"

definition small_store :: "(int list \<times> Document) list" where
  "small_store = store_from_documents small_embedding small_docs"

text \<open>What \<open>similarity_search\<close> finds in the small catalog, and the \<open>qdocs\<close> made of it.\<close>

definition small_retrieved :: "Document list" where
  "small_retrieved = csv_documents [''rain jacket'', ''sun shirt'', ''sun hat'', ''boots'']"

definition small_qdocs :: string where
  "small_qdocs = ''rain jacketsun shirtsun hatboots''"

text \<open>The same services with no catalog file.\<close>

definition no_file_library :: "(int obj, int, lib_error) library" where
  "no_file_library = catalog_library ((small_services (\<lambda>p. ''ok''))\<lparr>csv_rows := (\<lambda>p. None)\<rparr>)"





subsection \<open>Predicates of the proofs\<close>

text \<open>
  The events \<open>evs\<close> of a computation that ended in \<open>res\<close> account for \<open>res\<close>: a library
  exception is the one raised by the last call, and no other call raised.
\<close>

definition faithful :: "('o, 'x, 'e) library \<Rightarrow> ('o, 'x) event list \<Rightarrow> 'e error + 'a \<Rightarrow> bool" where
  "faithful lib evs res =
     (case res of
        Inl (LibraryError e) \<Rightarrow>
          evs \<noteq> [] \<and> raised lib (last evs) = Some e \<and>
          (\<forall>ev\<in>set (butlast evs). raised lib ev = None)
      | Inl IndexError \<Rightarrow> (\<forall>ev\<in>set evs. raised lib ev = None)
      | Inr _ \<Rightarrow> (\<forall>ev\<in>set evs. raised lib ev = None))"

definition propagates :: "('o, 'x, 'e) library \<Rightarrow> ('o, 'x, 'e, 'a) nb \<Rightarrow> bool" where
  "propagates lib m = (\<forall>l. \<exists>evs. fst (m l) = l @ evs \<and> faithful lib evs (snd (m l)))"


section \<open>Lemmas\<close>

subsection \<open>Joining with the empty separator\<close>

lemma join_Nil_sep: "join [] xs = concat xs"
  by (induction xs rule: induct_list012) simp_all

lemma qdocs_of_concat: "qdocs_of docs = concat (map page_content docs)"
proof -
  have "map (\<lambda>i. page_content (docs ! i)) [0..<length docs] =
        map page_content (map ((!) docs) [0..<length docs])"
    by simp
  then show ?thesis
    by (simp only: qdocs_of_def join_Nil_sep map_nth)
qed

lemmas nb_defs = nb_bind_def nb_return_def nb_raise_def call_def out_def index0_def

lemmas step_defs = cell_load_def cell_embeddings_def cell_db_def cell_search_def
  cell_qdocs_def cell_call_llm_def

lemmas other_defs = cell_dotenv_def cell_catalog_def cell_one_shot_def cell_qa_stuff_def
  cell_same_def

subsection \<open>Exceptions pass through sequencing\<close>

lemma propagates_return: "propagates lib (nb_return a)"
  by (simp add: propagates_def nb_return_def faithful_def)

lemma propagates_out: "propagates lib (out v)"
  by (simp add: propagates_def out_def faithful_def)

lemma propagates_index0: "propagates lib (index0 xs)"
  by (cases xs) (simp_all add: propagates_def index0_def nb_return_def nb_raise_def faithful_def)

lemma propagates_call: "raised lib ev = failure r \<Longrightarrow> propagates lib (call ev r)"
  by (cases r) (simp_all add: propagates_def call_def faithful_def failure_def)

lemma faithful_append:
  assumes "\<forall>ev\<in>set evs1. raised lib ev = None" and "faithful lib evs2 res"
  shows "faithful lib (evs1 @ evs2) res"
proof (cases res)
  case (Inl err)
  show ?thesis
  proof (cases err)
    case (LibraryError e)
    with Inl assms(2) have ne: "evs2 \<noteq> []" and l: "raised lib (last evs2) = Some e"
      and b: "\<forall>ev\<in>set (butlast evs2). raised lib ev = None"
      by (simp_all add: faithful_def)
    from ne have "butlast (evs1 @ evs2) = evs1 @ butlast evs2"
      by (simp add: butlast_append)
    with ne l b assms(1) show ?thesis
      unfolding Inl LibraryError by (auto simp: faithful_def)
  next
    case IndexError
    with Inl assms show ?thesis by (auto simp: faithful_def)
  qed
next
  case (Inr a)
  with assms show ?thesis by (auto simp: faithful_def)
qed

lemma propagates_bind:
  assumes m: "propagates lib m" and f: "\<And>a. propagates lib (f a)"
  shows "propagates lib (nb_bind m f)"
  unfolding propagates_def
proof
  fix l
  from m obtain evs1 where l1: "fst (m l) = l @ evs1" and f1: "faithful lib evs1 (snd (m l))"
    unfolding propagates_def by blast
  show "\<exists>evs. fst (nb_bind m f l) = l @ evs \<and> faithful lib evs (snd (nb_bind m f l))"
  proof (cases "snd (m l)")
    case (Inl err)
    then have "nb_bind m f l = (l @ evs1, Inl err)"
      using l1 by (cases "m l") (simp add: nb_bind_def)
    with f1 Inl show ?thesis by (auto simp: faithful_def)
  next
    case (Inr a)
    then have eq: "nb_bind m f l = f a (l @ evs1)"
      using l1 by (cases "m l") (simp add: nb_bind_def)
    from f obtain evs2 where l2: "fst (f a (l @ evs1)) = (l @ evs1) @ evs2"
      and f2: "faithful lib evs2 (snd (f a (l @ evs1)))"
      unfolding propagates_def by blast
    from f1 Inr have "\<forall>ev\<in>set evs1. raised lib ev = None"
      by (simp add: faithful_def)
    then have "faithful lib (evs1 @ evs2) (snd (f a (l @ evs1)))"
      using f2 by (rule faithful_append)
    with l2 eq show ?thesis by auto
  qed
qed

lemma propagates_case_prod:
  "(\<And>a b. propagates lib (f a b)) \<Longrightarrow> propagates lib (case p of (a, b) \<Rightarrow> f a b)"
  by (cases p) simp

lemmas propagates_intros =
  propagates_bind propagates_case_prod propagates_return propagates_out propagates_index0
  propagates_call

lemma propagates_step_by_step: "propagates lib (step_by_step lib)"
  unfolding step_by_step_def step_defs
  by (intro propagates_intros) simp_all

lemma propagates_notebook: "propagates lib (notebook lib)"
  unfolding notebook_def other_defs
  by (intro propagates_intros propagates_step_by_step) simp_all

subsection \<open>No computation reads the log\<close>










subsection \<open>Every run is an initial part of the one sequence\<close>





subsection \<open>The runs on the small catalog\<close>

lemmas catalog_defs = catalog_library_def catalog_load_def catalog_read_csv_def catalog_head_def
  catalog_embed_query_def catalog_from_documents_def catalog_similarity_search_def
  catalog_as_retriever_def catalog_call_as_llm_def csv_documents_def store_from_documents_def
  store_similarity_search_def nearest_def default_k_def

lemmas small_defs = small_services_def small_rows_def small_embedding_def small_similarity_def
  small_docs_def small_store_def small_retrieved_def small_qdocs_def query_suggest_def

lemma completion_small: "completion (small_services answer) = answer"
  by (simp add: small_services_def)

lemma small_step_by_step:
  "step_by_step (catalog_library (small_services answer)) l =
     (l @ [Call_CSVLoader file_name, Call_CSVLoader_load (Loader file_name),
       Output (Cell_value_doc \<lparr>page_content = ''sun shirt'', metadata = []\<rparr>),
       Call_OpenAIEmbeddings, Call_embed_query Embeddings ''Hi my name is Harrison'',
       Output (Print_len 2), Output (Print_floats [22, 2]),
       Call_from_documents small_docs Embeddings,
       Call_similarity_search (Store small_store) query_suggest,
       Output (Print_len 4),
       Output (Print_doc \<lparr>page_content = ''rain jacket'', metadata = []\<rparr>),
       Call_as_retriever (Store small_store), Call_ChatOpenAI 0,
       Output (Print_str small_qdocs),
       Call_call_as_llm Chat (prompt_of small_qdocs),
       Output (Display_Markdown (answer (prompt_of small_qdocs)))],
      Inr (Loader file_name, Embeddings, Retriever small_store, Chat,
           answer (prompt_of small_qdocs)))"
  by (simp add: step_by_step_def step_defs nb_defs catalog_defs small_defs qdocs_of_def upt_rec)

lemma small_cell_dotenv:
  "cell_dotenv (catalog_library w) l = (l @ [Call_find_dotenv, Call_load_dotenv ''.env''], Inr ())"
  by (simp add: cell_dotenv_def nb_defs catalog_library_def)

lemma small_cell_catalog:
  "cell_catalog (catalog_library (small_services answer)) l =
     (l @ [Call_CSVLoader file_name, Call_read_csv file_name 0,
           Call_DataFrame_head (Frame small_rows), Output (Cell_value_obj (Frame small_rows))],
      Inr (Loader file_name))"
  by (simp add: cell_catalog_def nb_defs catalog_library_def catalog_read_csv_def catalog_head_def
      small_services_def small_rows_def)

lemma small_cell_one_shot:
  "cell_one_shot (catalog_library w) loader l =
     (l @ [Call_VectorstoreIndexCreator DocArrayInMemorySearch None,
           Call_from_loaders Creator [loader], Call_index_query Index query_list None,
           Output (Display_Markdown (completion w query_list))],
      Inr ())"
  by (simp add: cell_one_shot_def nb_defs catalog_library_def)

lemma small_cell_qa_stuff:
  "cell_qa_stuff (catalog_library w) llm retriever l =
     (l @ [Call_from_chain_type llm ''stuff'' retriever True,
           Call_RetrievalQA_run Chain query_list,
           Output (Display_Markdown (completion w query_list))],
      Inr (completion w query_list))"
  by (simp add: cell_qa_stuff_def nb_defs catalog_library_def)

lemma small_cell_same:
  "cell_same (catalog_library w) loader embeddings llm l =
     (l @ [Call_VectorstoreIndexCreator DocArrayInMemorySearch (Some embeddings),
           Call_from_loaders Creator [loader], Call_index_query Index query_list (Some llm)],
      Inr (completion w query_list))"
  by (simp add: cell_same_def nb_defs catalog_library_def)

lemma small_notebook:
  "map op_of (fst (notebook small_library [])) = textual_order \<and>
   snd (notebook small_library []) = Inr ''ok''"
  by (simp add: notebook_def small_library_def nb_bind_def small_cell_dotenv small_cell_catalog
      small_cell_one_shot small_step_by_step small_cell_qa_stuff small_cell_same
      textual_order_def completion_small)

lemma no_file_notebook:
  "notebook no_file_library [] =
     ([Call_find_dotenv, Call_load_dotenv ''.env'', Call_CSVLoader file_name,
       Call_read_csv file_name 0], Inl (LibraryError FileNotFoundError))"
  by (simp add: notebook_def no_file_library_def other_defs nb_defs catalog_defs small_services_def)




lemma small_search:
  "store_similarity_search small_embedding small_similarity small_store query_suggest default_k =
     small_retrieved"
  by (simp add: catalog_defs small_defs)

subsection \<open>The step-by-step cells on any catalog\<close>



subsection \<open>Sorting by score and taking the first\<close>


lemma nearest_split:
  fixes sim :: "'v \<Rightarrow> 'v \<Rightarrow> 's::linorder" and store :: "('v \<times> Document) list"
  shows "\<exists>rest. mset (nearest sim qv store k @ rest) = mset store \<and>
     length (nearest sim qv store k) = min k (length store) \<and>
     (\<forall>r\<in>set (nearest sim qv store k). \<forall>d\<in>set rest. sim qv (fst d) \<le> sim qv (fst r))"
proof -
  define f where "f = (\<lambda>entry :: 'v \<times> Document. sim qv (fst entry))"
  define ys where "ys = rev (sort_key f store)"
  have top: "nearest sim qv store k = take k ys"
    by (simp add: nearest_def ys_def f_def)
  have "sorted (map f (sort_key f store))"
    by (rule sorted_sort_key)
  then have "sorted_wrt (\<lambda>a b. f b \<le> f a) ys"
    by (simp add: ys_def sorted_wrt_rev sorted_map)
  then have "sorted_wrt (\<lambda>a b. f b \<le> f a) (take k ys @ drop k ys)"
    by simp
  then have order: "\<forall>r\<in>set (take k ys). \<forall>d\<in>set (drop k ys). f d \<le> f r"
    unfolding sorted_wrt_append by blast
  have "mset (take k ys @ drop k ys) = mset store"
    by (simp add: ys_def)
  moreover have "length (take k ys) = min k (length store)"
    by (simp add: ys_def min.commute)
  ultimately show ?thesis
    using order unfolding top f_def by blast
qed

section \<open>Properties of the notebook\<close>




text \<open>
  C5. The prompt the step-by-step cells send to the language model is the page contents
  of the documents that \<open>similarity_search\<close> returned, in the order returned, joined with
  nothing between them, and after them the question text. The run ends as the library's
  \<open>call_as_llm\<close> applied to exactly this prompt ends: with its exception, or with its
  return value as \<open>response\<close>, displayed last. And whenever the calls before it return,
  with documents to index and documents retrieved, the model is called with this prompt.
\<close>

theorem prompt_is_join_then_question:
  assumes "step_by_step lib [] = (tr, res)"
  shows "(\<forall>llm p. Call_call_as_llm llm p \<in> set tr \<longrightarrow>
      (\<exists>db rs.
         Call_similarity_search db query_suggest \<in> set tr \<and>
         similarity_search lib db query_suggest = Inr rs \<and>
         p = join [] (map page_content rs) @
           '' Question: Please list all your shirts with sun protection in a table in markdown and summarize each one.'' \<and>
         join [] (map page_content rs) = concat (map page_content rs) \<and>
         (case call_as_llm lib llm p of
            Inl e \<Rightarrow> res = Inl (LibraryError e) \<and> last tr = Call_call_as_llm llm p
          | Inr response \<Rightarrow>
              (\<exists>loader embeddings retriever.
                 res = Inr (loader, embeddings, retriever, llm, response)) \<and>
              last tr = Output (Display_Markdown response)))) \<and>
    (\<forall>loader docs embeddings embed db rs retriever llm.
       CSVLoader lib file_name = Inr loader \<and>
       CSVLoader_load lib loader = Inr docs \<and> docs \<noteq> [] \<and>
       OpenAIEmbeddings lib = Inr embeddings \<and>
       embed_query lib embeddings ''Hi my name is Harrison'' = Inr embed \<and>
       from_documents lib docs embeddings = Inr db \<and>
       similarity_search lib db query_suggest = Inr rs \<and> rs \<noteq> [] \<and>
       as_retriever lib db = Inr retriever \<and>
       ChatOpenAI lib 0 = Inr llm \<longrightarrow>
       Call_call_as_llm llm (join [] (map page_content rs) @
           '' Question: Please list all your shirts with sun protection in a table in markdown and summarize each one.'')
         \<in> set tr)"
  using assms
  by (auto simp: step_by_step_def step_defs nb_defs qdocs_of_concat prompt_of_def join_Nil_sep
      split: sum.splits list.splits prod.splits)

theorem prompt_is_join_then_question_witness:
  "step_by_step small_library [] =
     (fst (step_by_step small_library []), snd (step_by_step small_library [])) \<and>
   Call_call_as_llm Chat (prompt_of small_qdocs) \<in> set (fst (step_by_step small_library [])) \<and>
   (\<exists>db rs.
      Call_similarity_search db query_suggest \<in> set (fst (step_by_step small_library [])) \<and>
      similarity_search small_library db query_suggest = Inr rs \<and>
      prompt_of small_qdocs = join [] (map page_content rs) @
        '' Question: Please list all your shirts with sun protection in a table in markdown and summarize each one.'' \<and>
      join [] (map page_content rs) = concat (map page_content rs) \<and>
      (case call_as_llm small_library Chat (prompt_of small_qdocs) of
         Inl e \<Rightarrow>
           snd (step_by_step small_library []) = Inl (LibraryError e) \<and>
           last (fst (step_by_step small_library [])) = Call_call_as_llm Chat (prompt_of small_qdocs)
       | Inr response \<Rightarrow>
           (\<exists>loader embeddings retriever.
              snd (step_by_step small_library []) =
                Inr (loader, embeddings, retriever, Chat, response)) \<and>
           last (fst (step_by_step small_library [])) = Output (Display_Markdown response))) \<and>
   (CSVLoader small_library file_name = Inr (Loader file_name) \<and>
    CSVLoader_load small_library (Loader file_name) = Inr small_docs \<and> small_docs \<noteq> [] \<and>
    OpenAIEmbeddings small_library = Inr Embeddings \<and>
    embed_query small_library Embeddings ''Hi my name is Harrison'' = Inr [22, 2] \<and>
    from_documents small_library small_docs Embeddings = Inr (Store small_store) \<and>
    similarity_search small_library (Store small_store) query_suggest = Inr small_retrieved \<and>
    small_retrieved \<noteq> [] \<and>
    as_retriever small_library (Store small_store) = Inr (Retriever small_store) \<and>
    ChatOpenAI small_library 0 = Inr Chat) \<and>
   Call_call_as_llm Chat (join [] (map page_content small_retrieved) @
       '' Question: Please list all your shirts with sun protection in a table in markdown and summarize each one.'')
     \<in> set (fst (step_by_step small_library []))"
proof -
  have run: "step_by_step small_library [] =
     (fst (step_by_step small_library []), snd (step_by_step small_library []))"
    by simp
  note both = prompt_is_join_then_question [OF run]
  have sent: "Call_call_as_llm Chat (prompt_of small_qdocs)
      \<in> set (fst (step_by_step small_library []))"
    by (simp add: small_library_def small_step_by_step)
  have calls: "CSVLoader small_library file_name = Inr (Loader file_name) \<and>
    CSVLoader_load small_library (Loader file_name) = Inr small_docs \<and> small_docs \<noteq> [] \<and>
    OpenAIEmbeddings small_library = Inr Embeddings \<and>
    embed_query small_library Embeddings ''Hi my name is Harrison'' = Inr [22, 2] \<and>
    from_documents small_library small_docs Embeddings = Inr (Store small_store) \<and>
    similarity_search small_library (Store small_store) query_suggest = Inr small_retrieved \<and>
    small_retrieved \<noteq> [] \<and>
    as_retriever small_library (Store small_store) = Inr (Retriever small_store) \<and>
    ChatOpenAI small_library 0 = Inr Chat"
  proof (intro conjI)
    show "CSVLoader small_library file_name = Inr (Loader file_name)"
      and "OpenAIEmbeddings small_library = Inr Embeddings"
      and "as_retriever small_library (Store small_store) = Inr (Retriever small_store)"
      and "ChatOpenAI small_library 0 = Inr Chat"
      by (simp_all add: small_library_def catalog_library_def catalog_as_retriever_def)
    show "CSVLoader_load small_library (Loader file_name) = Inr small_docs"
      by (simp add: small_library_def catalog_library_def catalog_load_def small_services_def
          small_docs_def)
    show "small_docs \<noteq> []" and "small_retrieved \<noteq> []"
      by (simp_all add: small_docs_def small_retrieved_def small_rows_def csv_documents_def)
    show "embed_query small_library Embeddings ''Hi my name is Harrison'' = Inr [22, 2]"
      by (simp add: small_library_def catalog_library_def catalog_embed_query_def
          small_services_def small_embedding_def)
    show "from_documents small_library small_docs Embeddings = Inr (Store small_store)"
      by (simp add: small_library_def catalog_library_def catalog_from_documents_def
          small_services_def small_store_def)
    show "similarity_search small_library (Store small_store) query_suggest =
        Inr small_retrieved"
      by (simp add: small_library_def catalog_library_def catalog_similarity_search_def
          small_services_def small_search)
  qed
  from both [THEN conjunct1, rule_format, OF sent] have backward: "\<exists>db rs.
      Call_similarity_search db query_suggest \<in> set (fst (step_by_step small_library [])) \<and>
      similarity_search small_library db query_suggest = Inr rs \<and>
      prompt_of small_qdocs = join [] (map page_content rs) @
        '' Question: Please list all your shirts with sun protection in a table in markdown and summarize each one.'' \<and>
      join [] (map page_content rs) = concat (map page_content rs) \<and>
      (case call_as_llm small_library Chat (prompt_of small_qdocs) of
         Inl e \<Rightarrow>
           snd (step_by_step small_library []) = Inl (LibraryError e) \<and>
           last (fst (step_by_step small_library [])) = Call_call_as_llm Chat (prompt_of small_qdocs)
       | Inr response \<Rightarrow>
           (\<exists>loader embeddings retriever.
              snd (step_by_step small_library []) =
                Inr (loader, embeddings, retriever, Chat, response)) \<and>
           last (fst (step_by_step small_library [])) = Output (Display_Markdown response))" .
  from both [THEN conjunct2, rule_format, OF calls]
  have forward: "Call_call_as_llm Chat (join [] (map page_content small_retrieved) @
       '' Question: Please list all your shirts with sun protection in a table in markdown and summarize each one.'')
     \<in> set (fst (step_by_step small_library []))" .
  from run sent backward calls forward show ?thesis
    by (intro conjI) simp_all
qed

text \<open>
  C7. A library call of a run of the notebook that raised an exception is the last
  operation of the run, and the run ended with that same exception.
\<close>

theorem library_exception_propagates:
  assumes run: "notebook lib [] = (tr, res)"
    and ev: "ev \<in> set tr"
    and e: "raised lib ev = Some e"
  shows "res = Inl (LibraryError e) \<and> ev = last tr"
proof -
  from propagates_notebook [of lib] run have fa: "faithful lib tr res"
    unfolding propagates_def by (metis append_Nil fst_conv snd_conv)
  show ?thesis
  proof (cases res)
    case (Inr a)
    with fa ev e show ?thesis by (auto simp: faithful_def)
  next
    case (Inl err)
    show ?thesis
    proof (cases err)
      case IndexError
      with Inl fa ev e show ?thesis by (auto simp: faithful_def)
    next
      case (LibraryError e')
      with Inl fa have ne: "tr \<noteq> []" and l: "raised lib (last tr) = Some e'"
        and b: "\<forall>ev\<in>set (butlast tr). raised lib ev = None"
        by (simp_all add: faithful_def)
      from ev append_butlast_last_id [OF ne] have "ev \<in> set (butlast tr @ [last tr])"
        by (simp only:)
      with e b have "ev = last tr" by auto
      with l e have "e' = e" by simp
      with Inl LibraryError \<open>ev = last tr\<close> show ?thesis by simp
    qed
  qed
qed

theorem library_exception_propagates_witness:
  "notebook no_file_library [] =
     ([Call_find_dotenv, Call_load_dotenv ''.env'', Call_CSVLoader file_name,
       Call_read_csv file_name 0], Inl (LibraryError FileNotFoundError)) \<and>
   Call_read_csv file_name 0 \<in>
     set [Call_find_dotenv, Call_load_dotenv ''.env'', Call_CSVLoader file_name,
          Call_read_csv file_name 0 :: (int obj, int) event] \<and>
   raised no_file_library (Call_read_csv file_name 0) = Some FileNotFoundError \<and>
   Call_read_csv file_name 0 =
     last [Call_find_dotenv, Call_load_dotenv ''.env'', Call_CSVLoader file_name,
           Call_read_csv file_name 0 :: (int obj, int) event]"
proof -
  have ev: "Call_read_csv file_name 0 \<in>
     set [Call_find_dotenv, Call_load_dotenv ''.env'', Call_CSVLoader file_name,
          Call_read_csv file_name 0 :: (int obj, int) event]"
    by simp
  have e: "raised no_file_library (Call_read_csv file_name 0) = Some FileNotFoundError"
    by (simp add: no_file_library_def catalog_library_def catalog_read_csv_def failure_def)
  from library_exception_propagates [OF no_file_notebook ev e] no_file_notebook ev e
  show ?thesis
    by simp
qed







section \<open>Properties of the library as the specification describes it\<close>

text \<open>
  C2. The search is exhaustive: what \<open>similarity_search\<close> returns are the documents of
  \<open>k\<close> entries of the store (all of them when the store has fewer), and every entry of
  the store left out scores no higher against the query's vector than any entry
  returned.
\<close>

theorem similarity_search_is_exhaustive:
  fixes sim :: "'v \<Rightarrow> 'v \<Rightarrow> 's::linorder" and store :: "('v \<times> Document) list"
  shows "\<exists>top rest.
     store_similarity_search emb sim store q k = map snd top \<and>
     mset (top @ rest) = mset store \<and>
     length top = min k (length store) \<and>
     (\<forall>r\<in>set top. \<forall>d\<in>set rest. sim (emb q) (fst d) \<le> sim (emb q) (fst r))"
  using nearest_split [of sim "emb q" store k]
  unfolding store_similarity_search_def by blast

theorem similarity_search_is_exhaustive_witness:
  "store_similarity_search small_embedding small_similarity small_store query_suggest default_k =
     small_retrieved \<and>
   (\<exists>top rest.
     small_retrieved = map snd top \<and>
     mset (top @ rest) = mset small_store \<and>
     length top = min default_k (length small_store) \<and>
     (\<forall>r\<in>set top. \<forall>d\<in>set rest.
        small_similarity (small_embedding query_suggest) (fst d)
          \<le> small_similarity (small_embedding query_suggest) (fst r)))"
  using similarity_search_is_exhaustive
    [of small_embedding small_similarity small_store query_suggest default_k]
  by (simp add: small_search)



end
